theory Spec2Isabelle
  imports Complex_Main
begin

section \<open>JavaScript numbers\<close>

text \<open>
  The program computes with JavaScript numbers. A number is a finite value,
  \<open>+Infinity\<close>, \<open>-Infinity\<close> or \<open>NaN\<close>. Finite values are modelled as reals,
  and \<open>+0\<close> and \<open>-0\<close> are one value. The operations \<open>js_add\<close>, \<open>js_mul\<close>,
  \<open>js_div\<close>, \<open>js_pow\<close> and \<open>js_log10\<close> give the exact real result, without the
  rounding and the overflow of IEEE doubles; the sample doses of the curve, where the
  rounding decides what the numbers are, use the rounded product \<open>double_mul\<close>
  below. Everything else follows ECMAScript: \<open>NaN\<close> is absorbing in arithmetic,
  every comparison with \<open>NaN\<close> is false, and \<open>Math.pow\<close> and \<open>Math.log10\<close>
  leave the finite numbers where the language says so.
\<close>

datatype jsnum = Fin real | PInf | NInf | NaN

fun js_neg :: "jsnum \<Rightarrow> jsnum" where
  "js_neg (Fin a) = Fin (- a)"
| "js_neg PInf = NInf"
| "js_neg NInf = PInf"
| "js_neg NaN = NaN"

fun js_add :: "jsnum \<Rightarrow> jsnum \<Rightarrow> jsnum" where
  "js_add (Fin a) (Fin b) = Fin (a + b)"
| "js_add (Fin a) PInf = PInf"
| "js_add (Fin a) NInf = NInf"
| "js_add PInf (Fin b) = PInf"
| "js_add PInf PInf = PInf"
| "js_add PInf NInf = NaN"
| "js_add NInf (Fin b) = NInf"
| "js_add NInf PInf = NaN"
| "js_add NInf NInf = NInf"
| "js_add NaN b = NaN"
| "js_add a NaN = NaN"

definition js_sub :: "jsnum \<Rightarrow> jsnum \<Rightarrow> jsnum" where
  "js_sub a b = js_add a (js_neg b)"

fun js_mul :: "jsnum \<Rightarrow> jsnum \<Rightarrow> jsnum" where
  "js_mul (Fin a) (Fin b) = Fin (a * b)"
| "js_mul (Fin a) PInf = (if a = 0 then NaN else if 0 < a then PInf else NInf)"
| "js_mul (Fin a) NInf = (if a = 0 then NaN else if 0 < a then NInf else PInf)"
| "js_mul PInf (Fin b) = (if b = 0 then NaN else if 0 < b then PInf else NInf)"
| "js_mul NInf (Fin b) = (if b = 0 then NaN else if 0 < b then NInf else PInf)"
| "js_mul PInf PInf = PInf"
| "js_mul PInf NInf = NInf"
| "js_mul NInf PInf = NInf"
| "js_mul NInf NInf = PInf"
| "js_mul NaN b = NaN"
| "js_mul a NaN = NaN"

text \<open>
  Division. A zero divisor is taken as \<open>+0\<close>; the program divides only behind the
  test \<open>den > 0\<close>.
\<close>

fun js_div :: "jsnum \<Rightarrow> jsnum \<Rightarrow> jsnum" where
  "js_div (Fin a) (Fin b) =
     (if b = 0 then (if a = 0 then NaN else if 0 < a then PInf else NInf)
      else Fin (a / b))"
| "js_div (Fin a) PInf = Fin 0"
| "js_div (Fin a) NInf = Fin 0"
| "js_div PInf (Fin b) = (if 0 \<le> b then PInf else NInf)"
| "js_div NInf (Fin b) = (if 0 \<le> b then NInf else PInf)"
| "js_div PInf PInf = NaN"
| "js_div PInf NInf = NaN"
| "js_div NInf PInf = NaN"
| "js_div NInf NInf = NaN"
| "js_div NaN b = NaN"
| "js_div a NaN = NaN"

text \<open>The comparison \<open>a > b\<close>.\<close>

fun js_gt :: "jsnum \<Rightarrow> jsnum \<Rightarrow> bool" where
  "js_gt (Fin a) (Fin b) = (b < a)"
| "js_gt (Fin a) PInf = False"
| "js_gt (Fin a) NInf = True"
| "js_gt PInf (Fin b) = True"
| "js_gt PInf PInf = False"
| "js_gt PInf NInf = True"
| "js_gt NInf (Fin b) = False"
| "js_gt NInf PInf = False"
| "js_gt NInf NInf = False"
| "js_gt NaN b = False"
| "js_gt a NaN = False"

text \<open>\<open>Math.max\<close> and \<open>Math.min\<close> of two arguments: \<open>NaN\<close> if either is.\<close>

fun js_max :: "jsnum \<Rightarrow> jsnum \<Rightarrow> jsnum" where
  "js_max NaN b = NaN"
| "js_max a NaN = NaN"
| "js_max a b = (if js_gt b a then b else a)"

fun js_min :: "jsnum \<Rightarrow> jsnum \<Rightarrow> jsnum" where
  "js_min NaN b = NaN"
| "js_min a NaN = NaN"
| "js_min a b = (if js_gt a b then b else a)"

text \<open>
  \<open>Math.pow base exponent\<close>, in the order of the cases of ECMAScript's
  \<open>Number::exponentiate\<close>: a \<open>NaN\<close> exponent, a zero exponent, a \<open>NaN\<close> base, an
  infinite base, a zero base, an infinite exponent, a negative base with a
  fractional exponent, and last the real power.
\<close>

definition odd_integer :: "real \<Rightarrow> bool" where
  "odd_integer e = (e \<in> \<int> \<and> odd \<lfloor>e\<rfloor>)"

fun js_pow :: "jsnum \<Rightarrow> jsnum \<Rightarrow> jsnum" where
  "js_pow b NaN = NaN"
| "js_pow b (Fin e) =
     (if e = 0 then Fin 1
      else case b of
        NaN \<Rightarrow> NaN
      | PInf \<Rightarrow> (if 0 < e then PInf else Fin 0)
      | NInf \<Rightarrow> (if 0 < e then (if odd_integer e then NInf else PInf) else Fin 0)
      | Fin x \<Rightarrow>
          (if x = 0 then (if 0 < e then Fin 0 else PInf)
           else if x < 0 then (if e \<in> \<int> then Fin (x powi \<lfloor>e\<rfloor>) else NaN)
           else Fin (x powr e)))"
| "js_pow b PInf =
     (case b of
        NaN \<Rightarrow> NaN
      | PInf \<Rightarrow> PInf
      | NInf \<Rightarrow> PInf
      | Fin x \<Rightarrow> (if 1 < \<bar>x\<bar> then PInf else if \<bar>x\<bar> = 1 then NaN else Fin 0))"
| "js_pow b NInf =
     (case b of
        NaN \<Rightarrow> NaN
      | PInf \<Rightarrow> Fin 0
      | NInf \<Rightarrow> Fin 0
      | Fin x \<Rightarrow> (if 1 < \<bar>x\<bar> then Fin 0 else if \<bar>x\<bar> = 1 then NaN else PInf))"

text \<open>\<open>Math.log10\<close>.\<close>

fun js_log10 :: "jsnum \<Rightarrow> jsnum" where
  "js_log10 (Fin x) = (if x < 0 then NaN else if x = 0 then NInf else Fin (log 10 x))"
| "js_log10 PInf = PInf"
| "js_log10 NInf = NaN"
| "js_log10 NaN = NaN"

text \<open>
  Rounding to the nearest double, ties to even. A double has a significand of 53
  bits: a real \<open>x\<close> with \<open>2^e \<le> |x| < 2^(e+1)\<close> is rounded to the nearest multiple
  of \<open>2^(e-52)\<close>. The range of the exponent (overflow and subnormal numbers) is not
  represented. \<open>rne\<close> rounds a real to the nearest integer, a tie to the even one.
\<close>

definition rne :: "real \<Rightarrow> int" where
  "rne y = (let f = \<lfloor>y\<rfloor> in
     if y - of_int f < 1 / 2 then f
     else if 1 / 2 < y - of_int f then f + 1
     else if even f then f else f + 1)"

definition fl :: "real \<Rightarrow> real" where
  "fl x = (if x = 0 then 0
     else sgn x * of_int (rne (\<bar>x\<bar> / 2 powi (\<lfloor>log 2 \<bar>x\<bar>\<rfloor> - 52))) *
          2 powi (\<lfloor>log 2 \<bar>x\<bar>\<rfloor> - 52))"

text \<open>The product of two doubles as a double: the exact product, rounded.\<close>

fun double_mul :: "jsnum \<Rightarrow> jsnum \<Rightarrow> jsnum" where
  "double_mul (Fin a) (Fin b) = Fin (fl (a * b))"
| "double_mul a b = js_mul a b"

text \<open>A finite number, and a number that is finite and not negative or \<open>+Infinity\<close>.\<close>

fun finite_num :: "jsnum \<Rightarrow> bool" where
  "finite_num (Fin r) = True"
| "finite_num PInf = False"
| "finite_num NInf = False"
| "finite_num NaN = False"

fun nonneg_or_inf :: "jsnum \<Rightarrow> bool" where
  "nonneg_or_inf (Fin r) = (0 \<le> r)"
| "nonneg_or_inf PInf = True"
| "nonneg_or_inf NInf = False"
| "nonneg_or_inf NaN = False"

section \<open>The response clamp and the residual sum of squares\<close>

text \<open>
  The functions of this section are the same in both copies of the application,
  \<^verbatim>\<open>src/App.jsx\<close> and \<^verbatim>\<open>unnamed/part_000\<close>.

  \<^verbatim>\<open>function clampResponse(y) { return Math.max(0, Math.min(120, y)); }\<close>
\<close>

definition clampResponse :: "jsnum \<Rightarrow> jsnum" where
  "clampResponse y = js_max (Fin 0) (js_min (Fin 120) y)"

text \<open>A number of the closed interval from 0 to 120.\<close>

fun in_plot_range :: "jsnum \<Rightarrow> bool" where
  "in_plot_range (Fin r) = (0 \<le> r \<and> r \<le> 120)"
| "in_plot_range PInf = False"
| "in_plot_range NInf = False"
| "in_plot_range NaN = False"

text \<open>
  An array read \<open>a[i]\<close> is \<open>undefined\<close> past the end of the array, and
  \<open>v ?? d\<close> replaces \<open>undefined\<close> by \<open>d\<close>.
\<close>

definition at_index :: "'a list \<Rightarrow> nat \<Rightarrow> 'a option" where
  "at_index a i = (if i < length a then Some (a ! i) else None)"

fun nullish :: "'a option \<Rightarrow> 'a \<Rightarrow> 'a" where
  "nullish None d = d"
| "nullish (Some v) d = v"

text \<open>
  \<open>Array.prototype.reduce\<close> with an initial value: the callback receives the
  accumulator, the element and its index, from left to right.
\<close>

fun reduce_from :: "('b \<Rightarrow> 'a \<Rightarrow> nat \<Rightarrow> 'b) \<Rightarrow> 'a list \<Rightarrow> nat \<Rightarrow> 'b \<Rightarrow> 'b" where
  "reduce_from f [] i acc = acc"
| "reduce_from f (y # ys) i acc = reduce_from f ys (Suc i) (f acc y i)"

definition reduce :: "('b \<Rightarrow> 'a \<Rightarrow> nat \<Rightarrow> 'b) \<Rightarrow> 'a list \<Rightarrow> 'b \<Rightarrow> 'b" where
  "reduce f a init = reduce_from f a 0 init"

text \<open>
  \<^verbatim>\<open>function rss(obs, pred) {
    return obs.reduce((acc, y, i) => acc + Math.pow(y - (pred[i] ?? 0), 2), 0); }\<close>
\<close>

definition rss :: "jsnum list \<Rightarrow> jsnum list \<Rightarrow> jsnum" where
  "rss obs pred =
     reduce (\<lambda>acc y i. js_add acc (js_pow (js_sub y (nullish (at_index pred i) (Fin 0))) (Fin 2)))
       obs (Fin 0)"

text \<open>
  The residual sum of squares in the words of the specification: the sum, over the
  indices of the observations, of the squared difference between the observation and
  the prediction, a missing prediction counting as 0.
\<close>

fun js_sum :: "jsnum list \<Rightarrow> jsnum" where
  "js_sum [] = Fin 0"
| "js_sum (t # ts) = js_add t (js_sum ts)"

definition rss_spec :: "jsnum list \<Rightarrow> jsnum list \<Rightarrow> jsnum" where
  "rss_spec obs pred =
     js_sum
       (map (\<lambda>i. js_pow (js_sub (obs ! i) (if i < length pred then pred ! i else Fin 0)) (Fin 2))
          [0..<length obs])"

section \<open>Parameter objects and the reference data\<close>

text \<open>
  A parameter object maps parameter names to numbers. Reading a property that the
  object does not have gives \<open>undefined\<close>, which every arithmetic operation and
  \<open>Math.pow\<close> convert to \<open>NaN\<close>.
\<close>

type_synonym params = "string \<rightharpoonup> jsnum"

definition getprop :: "params \<Rightarrow> string \<Rightarrow> jsnum" where
  "getprop p k = (case p k of None \<Rightarrow> NaN | Some v \<Rightarrow> v)"

text \<open>\<open>Object.fromEntries\<close>: a later entry overrides an earlier one of the same key.\<close>

definition fromEntries :: "(string \<times> 'v) list \<Rightarrow> (string \<rightharpoonup> 'v)" where
  "fromEntries es = foldl (\<lambda>m (k, v). m(k \<mapsto> v)) Map.empty es"

text \<open>
  \<^verbatim>\<open>function emaxPred(d, p) {
    const num = p.Emax * Math.pow(d, p.h);
    const den = Math.pow(p.ED50, p.h) + Math.pow(d, p.h);
    const drop = den > 0 ? num / den : 0;
    return p.E0 - drop; }\<close>
\<close>

definition emaxPred :: "jsnum \<Rightarrow> params \<Rightarrow> jsnum" where
  "emaxPred d p =
     (let num = js_mul (getprop p ''Emax'') (js_pow d (getprop p ''h''));
          den = js_add (js_pow (getprop p ''ED50'') (getprop p ''h'')) (js_pow d (getprop p ''h''));
          drop = (if js_gt den (Fin 0) then js_div num den else Fin 0)
      in js_sub (getprop p ''E0'') drop)"

text \<open>
  The synthetic reference parameters: \<open>ED50\<close> is 0.01 in \<^verbatim>\<open>src/App.jsx\<close> and 1 in
  \<^verbatim>\<open>unnamed/part_000\<close>. Definitions of the second copy carry the suffix \<open>_p0\<close>.
\<close>

definition SYNTH :: params where
  "SYNTH = fromEntries
     [(''E0'', Fin 100), (''Emax'', Fin 80), (''ED50'', Fin (1 / 100)), (''h'', Fin 1)]"

definition SYNTH_p0 :: params where
  "SYNTH_p0 = fromEntries
     [(''E0'', Fin 100), (''Emax'', Fin 80), (''ED50'', Fin 1), (''h'', Fin 1)]"

definition DOSES :: "jsnum list" where
  "DOSES = [Fin (1 / 2), Fin 1, Fin 2, Fin 3]"

text \<open>A point \<open>{x, y}\<close> is the pair of its dose and its response.\<close>

type_synonym point = "jsnum \<times> jsnum"

definition demoData :: "point list" where
  "demoData = map (\<lambda>x. (x, emaxPred x SYNTH)) DOSES"

definition demoData_p0 :: "point list" where
  "demoData_p0 = map (\<lambda>x. (x, emaxPred x SYNTH_p0)) DOSES"

definition LOG_OFFSET :: jsnum where
  "LOG_OFFSET = Fin (1 / 1000)"

section \<open>The model registry\<close>

text \<open>
  The keys of \<open>models\<close>: \<open>'Linear'\<close>, \<open>'Log-linear'\<close> and \<open>'Emax'\<close>. Of each
  entry the parameter schema and the evaluator \<open>fn\<close> are modelled; the equation
  string \<open>eq\<close> only formats the parameters for display.
\<close>

datatype variant = Linear | LogLinear | Emax

record param_spec =
  label :: string
  min_bound :: jsnum
  max_bound :: jsnum
  step :: jsnum
  defaultValue :: jsnum

text \<open>The \<open>params\<close> entry of each model, in the order of the object literal.\<close>

fun model_params :: "variant \<Rightarrow> (string \<times> param_spec) list" where
  "model_params Linear =
     [(''a'', \<lparr>label = ''Intercept a'', min_bound = Fin 0, max_bound = Fin 120,
               step = Fin (1 / 2), defaultValue = Fin 100\<rparr>),
      (''b'', \<lparr>label = ''Slope b'', min_bound = Fin (- 200), max_bound = Fin 50,
               step = Fin (1 / 2), defaultValue = Fin (- 30)\<rparr>)]"
| "model_params LogLinear =
     [(''a'', \<lparr>label = ''Intercept a'', min_bound = Fin 0, max_bound = Fin 120,
               step = Fin (1 / 2), defaultValue = Fin 100\<rparr>),
      (''b'', \<lparr>label = ''Slope b'', min_bound = Fin (- 200), max_bound = Fin 50,
               step = Fin (1 / 2), defaultValue = Fin (- 60)\<rparr>)]"
| "model_params Emax =
     [(''E0'', \<lparr>label = ''Baseline E0'', min_bound = Fin 50, max_bound = Fin 120,
                step = Fin (1 / 2), defaultValue = Fin 100\<rparr>),
      (''Emax'', \<lparr>label = ''Max drop Emax'', min_bound = Fin 0, max_bound = Fin 100,
                  step = Fin (1 / 2), defaultValue = Fin 60\<rparr>),
      (''ED50'', \<lparr>label = ''ED50'', min_bound = Fin (1 / 1000), max_bound = Fin 3,
                  step = Fin (1 / 1000), defaultValue = Fin (1 / 2)\<rparr>),
      (''h'', \<lparr>label = ''Hill h'', min_bound = Fin (1 / 5), max_bound = Fin 4,
               step = Fin (1 / 20), defaultValue = Fin 1\<rparr>)]"

fun model_params_p0 :: "variant \<Rightarrow> (string \<times> param_spec) list" where
  "model_params_p0 Linear =
     [(''b'', \<lparr>label = ''Slope b'', min_bound = Fin (- 200), max_bound = Fin 50,
               step = Fin (1 / 2), defaultValue = Fin (- 20)\<rparr>)]"
| "model_params_p0 LogLinear =
     [(''b'', \<lparr>label = ''Slope b'', min_bound = Fin (- 200), max_bound = Fin 50,
               step = Fin (1 / 2), defaultValue = Fin (- 50)\<rparr>)]"
| "model_params_p0 Emax =
     [(''Emax'', \<lparr>label = ''Emax'', min_bound = Fin 0, max_bound = Fin 100,
                  step = Fin (1 / 2), defaultValue = Fin 70\<rparr>),
      (''ED50'', \<lparr>label = ''ED50'', min_bound = Fin (1 / 1000), max_bound = Fin 3,
                  step = Fin (1 / 1000), defaultValue = Fin (3 / 2)\<rparr>),
      (''h'', \<lparr>label = ''Hill h'', min_bound = Fin (1 / 5), max_bound = Fin 4,
               step = Fin (1 / 20), defaultValue = Fin (3 / 2)\<rparr>)]"

subsection \<open>The evaluators of \<^verbatim>\<open>src/App.jsx\<close>\<close>

text \<open>\<^verbatim>\<open>fn: (x, p) => p.a + p.b * x\<close>\<close>

definition Linear_fn :: "jsnum \<Rightarrow> params \<Rightarrow> jsnum" where
  "Linear_fn x p = js_add (getprop p ''a'') (js_mul (getprop p ''b'') x)"

text \<open>\<^verbatim>\<open>fn: (x, p) => p.a + p.b * Math.log10(x + LOG_OFFSET)\<close>\<close>

definition LogLinear_fn :: "jsnum \<Rightarrow> params \<Rightarrow> jsnum" where
  "LogLinear_fn x p =
     js_add (getprop p ''a'') (js_mul (getprop p ''b'') (js_log10 (js_add x LOG_OFFSET)))"

text \<open>
  \<^verbatim>\<open>fn: (x, p) => {
    const num = p.Emax * Math.pow(x, p.h);
    const den = Math.pow(p.ED50, p.h) + Math.pow(x, p.h);
    const inh = den > 0 ? num / den : 0;
    return p.E0 - inh; }\<close>
\<close>

definition Emax_fn :: "jsnum \<Rightarrow> params \<Rightarrow> jsnum" where
  "Emax_fn x p =
     (let num = js_mul (getprop p ''Emax'') (js_pow x (getprop p ''h''));
          den = js_add (js_pow (getprop p ''ED50'') (getprop p ''h'')) (js_pow x (getprop p ''h''));
          inh = (if js_gt den (Fin 0) then js_div num den else Fin 0)
      in js_sub (getprop p ''E0'') inh)"

text \<open>\<open>models[modelKey].fn\<close>\<close>

fun fn :: "variant \<Rightarrow> jsnum \<Rightarrow> params \<Rightarrow> jsnum" where
  "fn Linear = Linear_fn"
| "fn LogLinear = LogLinear_fn"
| "fn Emax = Emax_fn"

subsection \<open>The evaluators of \<^verbatim>\<open>unnamed/part_000\<close>\<close>

text \<open>\<^verbatim>\<open>fn: (x, p) => 100 + p.b * x\<close>\<close>

definition Linear_fn_p0 :: "jsnum \<Rightarrow> params \<Rightarrow> jsnum" where
  "Linear_fn_p0 x p = js_add (Fin 100) (js_mul (getprop p ''b'') x)"

text \<open>
  \<^verbatim>\<open>fn: (x, p) => 100 + p.b * (Math.log10(x + LOG_OFFSET) - Math.log10(LOG_OFFSET))\<close>
\<close>

definition LogLinear_fn_p0 :: "jsnum \<Rightarrow> params \<Rightarrow> jsnum" where
  "LogLinear_fn_p0 x p =
     js_add (Fin 100)
       (js_mul (getprop p ''b'') (js_sub (js_log10 (js_add x LOG_OFFSET)) (js_log10 LOG_OFFSET)))"

text \<open>As \<open>Emax_fn\<close>, with the last line \<^verbatim>\<open>return 100 - inh;\<close>\<close>

definition Emax_fn_p0 :: "jsnum \<Rightarrow> params \<Rightarrow> jsnum" where
  "Emax_fn_p0 x p =
     (let num = js_mul (getprop p ''Emax'') (js_pow x (getprop p ''h''));
          den = js_add (js_pow (getprop p ''ED50'') (getprop p ''h'')) (js_pow x (getprop p ''h''));
          inh = (if js_gt den (Fin 0) then js_div num den else Fin 0)
      in js_sub (Fin 100) inh)"

fun fn_p0 :: "variant \<Rightarrow> jsnum \<Rightarrow> params \<Rightarrow> jsnum" where
  "fn_p0 Linear = Linear_fn_p0"
| "fn_p0 LogLinear = LogLinear_fn_p0"
| "fn_p0 Emax = Emax_fn_p0"

subsection \<open>The formulas of the specification\<close>

text \<open>
  The inhibitory Emax response as the specification writes it,
  \<open>E0 - (Emax * x^h) / (ED50^h + x^h)\<close>, the inhibition term counting as 0 when the
  denominator is 0.
\<close>

definition Emax_spec :: "jsnum \<Rightarrow> jsnum \<Rightarrow> jsnum \<Rightarrow> jsnum \<Rightarrow> jsnum \<Rightarrow> jsnum" where
  "Emax_spec e0 em ed hh x =
     (if js_add (js_pow ed hh) (js_pow x hh) = Fin 0 then e0
      else js_sub e0 (js_div (js_mul em (js_pow x hh)) (js_add (js_pow ed hh) (js_pow x hh))))"

text \<open>The log-linear response as the specification writes it, \<open>a + b * log10 (x + \<epsilon>)\<close>.\<close>

definition LogLinear_spec :: "jsnum \<Rightarrow> jsnum \<Rightarrow> jsnum \<Rightarrow> jsnum \<Rightarrow> jsnum" where
  "LogLinear_spec eps a b x = js_add a (js_mul b (js_log10 (js_add x eps)))"

section \<open>The parameter state\<close>

text \<open>
  \<open>defaults\<close> of \<open>useModelState\<close>:
  \<^verbatim>\<open>Object.fromEntries(Object.entries(cfg.params).map(([k, v]) => [k, v.defaultValue]))\<close>
\<close>

definition defaults :: "variant \<Rightarrow> params" where
  "defaults modelKey = fromEntries (map (\<lambda>(k, v). (k, defaultValue v)) (model_params modelKey))"

definition defaults_p0 :: "variant \<Rightarrow> params" where
  "defaults_p0 modelKey =
     fromEntries (map (\<lambda>(k, v). (k, defaultValue v)) (model_params_p0 modelKey))"

subsection \<open>\<^verbatim>\<open>src/App.jsx\<close>: one state object\<close>

text \<open>
  The component holds two pieces of React state: the selected model key, initially
  \<open>'Emax'\<close>, and the one state object of \<open>useModelState\<close>. \<open>useState(defaults)\<close>
  uses its argument at the first render only, so the object starts as the defaults of
  \<open>'Emax'\<close> and a later render with another model key finds it as it was left.
  \<^verbatim>\<open>const [state, setState] = useState(defaults);
  const update = (k, val) => setState((s) => ({ ...s, [k]: val }));
  const reset = () => setState(defaults);
  return { params: state, update, reset, cfg };\<close>
\<close>

record app =
  modelKey :: variant
  state :: params

definition app_init :: app where
  "app_init = \<lparr>modelKey = Emax, state = defaults Emax\<rparr>"

definition setModelKey :: "variant \<Rightarrow> app \<Rightarrow> app" where
  "setModelKey k s = s\<lparr>modelKey := k\<rparr>"

definition update :: "string \<Rightarrow> jsnum \<Rightarrow> app \<Rightarrow> app" where
  "update k val s = s\<lparr>state := (state s)(k \<mapsto> val)\<rparr>"

definition reset :: "app \<Rightarrow> app" where
  "reset s = s\<lparr>state := defaults (modelKey s)\<rparr>"

definition params_of :: "app \<Rightarrow> params" where
  "params_of s = state s"

subsection \<open>\<^verbatim>\<open>unnamed/part_000\<close>: one state object per model\<close>

text \<open>
  Here the hook keeps \<open>stateByModel\<close>, initialised with the defaults of every key of
  \<open>models\<close>; the selected model key is initially \<open>'Linear'\<close>.
  \<^verbatim>\<open>const params = stateByModel[modelKey];
  const update = (k, val) => setStateByModel((s) => ({
    ...s, [modelKey]: { ...s[modelKey], [k]: val } }));
  const reset = () => setStateByModel((s) => ({ ...s, [modelKey]: defaults }));\<close>
\<close>

record app_p0 =
  modelKey_p0 :: variant
  stateByModel :: "variant \<Rightarrow> params"

definition app_init_p0 :: app_p0 where
  "app_init_p0 = \<lparr>modelKey_p0 = Linear, stateByModel = (\<lambda>key. defaults_p0 key)\<rparr>"

definition setModelKey_p0 :: "variant \<Rightarrow> app_p0 \<Rightarrow> app_p0" where
  "setModelKey_p0 k s = s\<lparr>modelKey_p0 := k\<rparr>"

definition update_p0 :: "string \<Rightarrow> jsnum \<Rightarrow> app_p0 \<Rightarrow> app_p0" where
  "update_p0 k val s =
     s\<lparr>stateByModel := (stateByModel s)
          (modelKey_p0 s := (stateByModel s (modelKey_p0 s))(k \<mapsto> val))\<rparr>"

definition reset_p0 :: "app_p0 \<Rightarrow> app_p0" where
  "reset_p0 s =
     s\<lparr>stateByModel := (stateByModel s)(modelKey_p0 s := defaults_p0 (modelKey_p0 s))\<rparr>"

definition params_of_p0 :: "app_p0 \<Rightarrow> params" where
  "params_of_p0 s = stateByModel s (modelKey_p0 s)"

subsection \<open>User actions\<close>

text \<open>
  The user selects a model, moves the slider of a parameter or presses Reset; each
  action calls the setter, \<open>update\<close> or \<open>reset\<close>. A run applies a list of actions
  from left to right. (\<^verbatim>\<open>unnamed/part_000\<close> defines \<open>reset\<close> and renders no
  button for it.)
\<close>

datatype action = Select variant | Slide string jsnum | Reset

fun act :: "app \<Rightarrow> action \<Rightarrow> app" where
  "act s (Select k) = setModelKey k s"
| "act s (Slide k val) = update k val s"
| "act s Reset = reset s"

fun act_p0 :: "app_p0 \<Rightarrow> action \<Rightarrow> app_p0" where
  "act_p0 s (Select k) = setModelKey_p0 k s"
| "act_p0 s (Slide k val) = update_p0 k val s"
| "act_p0 s Reset = reset_p0 s"

definition run :: "action list \<Rightarrow> app \<Rightarrow> app" where
  "run as s = foldl act s as"

definition run_p0 :: "action list \<Rightarrow> app_p0 \<Rightarrow> app_p0" where
  "run_p0 as s = foldl act_p0 s as"

text \<open>
  What the controls can deliver. The slider of a parameter is
  \<^verbatim>\<open><input type="range" min={min} max={max} step={step}
     onChange={(e) => onChange(parseFloat(e.target.value))} />\<close>
  and there is one slider for every entry of \<open>cfg.params\<close>, the parameters of the
  selected model: a slider action carries a key of the selected model and a finite
  number between the bounds of that key.
\<close>

definition in_bounds :: "param_spec \<Rightarrow> jsnum \<Rightarrow> bool" where
  "in_bounds sp v = (finite_num v \<and> \<not> js_gt (min_bound sp) v \<and> \<not> js_gt v (max_bound sp))"

fun control_action_p0 :: "app_p0 \<Rightarrow> action \<Rightarrow> bool" where
  "control_action_p0 s (Select k) = True"
| "control_action_p0 s (Slide k val) =
     (case map_of (model_params_p0 (modelKey_p0 s)) k of
        None \<Rightarrow> False
      | Some sp \<Rightarrow> in_bounds sp val)"
| "control_action_p0 s Reset = True"

fun control_run_p0 :: "app_p0 \<Rightarrow> action list \<Rightarrow> bool" where
  "control_run_p0 s [] = True"
| "control_run_p0 s (a # as) = (control_action_p0 s a \<and> control_run_p0 (act_p0 s a) as)"

text \<open>Every parameter of a schema is present and within its bounds.\<close>

definition params_in_bounds :: "(string \<times> param_spec) list \<Rightarrow> params \<Rightarrow> bool" where
  "params_in_bounds ps p =
     list_all (\<lambda>(k, sp). case p k of None \<Rightarrow> False | Some v \<Rightarrow> in_bounds sp v) ps"

definition state_in_bounds_p0 :: "app_p0 \<Rightarrow> bool" where
  "state_in_bounds_p0 s =
     (params_in_bounds (model_params_p0 Linear) (stateByModel s Linear) \<and>
      params_in_bounds (model_params_p0 LogLinear) (stateByModel s LogLinear) \<and>
      params_in_bounds (model_params_p0 Emax) (stateByModel s Emax))"

section \<open>The evaluation of a render\<close>

text \<open>\<open>Array.from({ length: n }, (_, i) => f i)\<close>\<close>

definition array_from :: "nat \<Rightarrow> (nat \<Rightarrow> 'a) \<Rightarrow> 'a list" where
  "array_from n f = map f [0..<n]"

text \<open>
  \<^verbatim>\<open>const xs = Array.from({ length: 321 }, (_, i) => i * 0.01);
  return xs.map((x) => ({ x, y: clampResponse(models[modelKey].fn(x, params)) }));\<close>
  with 321 samples in \<^verbatim>\<open>src/App.jsx\<close> and 501 in \<^verbatim>\<open>unnamed/part_000\<close>. The
  literal \<open>0.01\<close> is the double nearest to 1/100, the index is an integer and exact,
  and the product is a double product.
\<close>

definition xs :: "jsnum list" where
  "xs = array_from 321 (\<lambda>i. double_mul (Fin (real i)) (Fin (fl (1 / 100))))"

definition xs_p0 :: "jsnum list" where
  "xs_p0 = array_from 501 (\<lambda>i. double_mul (Fin (real i)) (Fin (fl (1 / 100))))"

definition curve :: "variant \<Rightarrow> params \<Rightarrow> point list" where
  "curve k p = map (\<lambda>x. (x, clampResponse (fn k x p))) xs"

definition curve_p0 :: "variant \<Rightarrow> params \<Rightarrow> point list" where
  "curve_p0 k p = map (\<lambda>x. (x, clampResponse (fn_p0 k x p))) xs_p0"

text \<open>
  \<^verbatim>\<open>const preds = demoData.map((d) => models[modelKey].fn(d.x, params));
  const rssVal = rss(demoData.map((d) => d.y), preds);\<close>
\<close>

definition preds :: "variant \<Rightarrow> params \<Rightarrow> jsnum list" where
  "preds k p = map (\<lambda>d. fn k (fst d) p) demoData"

definition preds_p0 :: "variant \<Rightarrow> params \<Rightarrow> jsnum list" where
  "preds_p0 k p = map (\<lambda>d. fn_p0 k (fst d) p) demoData_p0"

definition rssVal :: "variant \<Rightarrow> params \<Rightarrow> jsnum" where
  "rssVal k p = rss (map snd demoData) (preds k p)"

definition rssVal_p0 :: "variant \<Rightarrow> params \<Rightarrow> jsnum" where
  "rssVal_p0 k p = rss (map snd demoData_p0) (preds_p0 k p)"

section \<open>Arithmetic of JavaScript numbers\<close>

lemma js_sub_Fin: "js_sub (Fin a) (Fin b) = Fin (a - b)"
  by (simp add: js_sub_def)

lemma js_add_commute: "js_add a b = js_add b a"
  by (cases a; cases b) simp_all

lemma js_add_assoc: "js_add (js_add a b) c = js_add a (js_add b c)"
  by (cases a; cases b; cases c) simp_all

lemma js_add_zero: "js_add v (Fin 0) = v" "js_add (Fin 0) v = v"
  by (cases v; simp)+

lemma js_pow_two: "js_pow (Fin d) (Fin 2) = Fin (d\<^sup>2)"
  by simp

lemma js_pow_nonneg_base: "0 \<le> x \<Longrightarrow> nonneg_or_inf (js_pow (Fin x) (Fin e))"
  by simp

lemma nonneg_or_inf_add: "nonneg_or_inf a \<Longrightarrow> nonneg_or_inf b \<Longrightarrow> nonneg_or_inf (js_add a b)"
  by (cases a; cases b) simp_all

lemma nonneg_or_inf_gt: "nonneg_or_inf v \<Longrightarrow> js_gt v (Fin 0) = (v \<noteq> Fin 0)"
  by (cases v) auto

lemma finite_sub: "finite_num v \<Longrightarrow> finite_num (js_sub (Fin a) v)"
  by (cases v) (simp_all add: js_sub_Fin)

lemma log10_offset: "log 10 (1 / 1000) = - 3"
proof -
  have "(1 / 1000 :: real) = 10 powr (- 3)"
    by (simp add: powr_minus_divide)
  then show ?thesis
    by (simp only: log_powr_cancel)
qed

lemma js_log10_LOG_OFFSET: "js_log10 LOG_OFFSET = Fin (- 3)"
  by (simp add: LOG_OFFSET_def log10_offset)

section \<open>Rounding to doubles\<close>

lemma rne_error: "\<bar>of_int (rne y) - y\<bar> \<le> 1 / 2"
proof -
  have "of_int \<lfloor>y\<rfloor> \<le> y" "y < of_int \<lfloor>y\<rfloor> + 1"
    by linarith+
  then show ?thesis
    by (simp add: rne_def Let_def abs_le_iff)
qed

lemma rne_nonneg: "0 \<le> y \<Longrightarrow> 0 \<le> rne y"
  unfolding rne_def Let_def by auto

lemma floor_log2_eq:
  assumes "0 < x" "2 powi k \<le> x" "x < 2 powi (k + 1)"
  shows "\<lfloor>log 2 x\<rfloor> = k"
proof -
  have "(2::real) powr (of_int k + 1) = 2 powr of_int (k + 1)"
    by simp
  also have "\<dots> = 2 powi (k + 1)"
    by (rule powr_real_of_int') simp_all
  finally have up: "x < 2 powr (of_int k + 1)"
    using assms(3) by simp
  have "(2::real) powr of_int k = 2 powi k"
    by (rule powr_real_of_int') simp_all
  then have "(2::real) powr of_int k \<le> x"
    using assms(2) by simp
  with up show ?thesis
    using assms(1) by (simp add: floor_log_eq_powr_iff)
qed

lemma fl_eval:
  assumes "0 < x" "2 powi k \<le> x" "x < 2 powi (k + 1)"
  shows "fl x = of_int (rne (x / 2 powi (k - 52))) * 2 powi (k - 52)"
  using assms by (simp add: fl_def floor_log2_eq [OF assms])

lemma fl_nonneg: "0 \<le> x \<Longrightarrow> 0 \<le> fl x"
  by (simp add: fl_def rne_nonneg)

lemma pow2_floor_log_le:
  assumes "0 < x"
  shows "2 powi \<lfloor>log 2 x\<rfloor> \<le> x"
proof -
  have "2 powr (of_int \<lfloor>log 2 x\<rfloor>) \<le> 2 powr (log 2 x)"
    by (intro powr_mono) simp_all
  also have "\<dots> = x" using assms by simp
  finally show ?thesis by (simp add: powr_real_of_int')
qed

lemma fl_error:
  assumes "0 \<le> x"
  shows "\<bar>fl x - x\<bar> \<le> x / 2 ^ 53"
proof (cases "x = 0")
  case True
  then show ?thesis by (simp add: fl_def)
next
  case False
  with assms have pos: "0 < x" by simp
  define e where "e = \<lfloor>log 2 x\<rfloor>"
  define u :: real where "u = 2 powi (e - 52)"
  have upos: "0 < u" by (simp add: u_def)
  have flx: "fl x = of_int (rne (x / u)) * u"
    using pos by (simp add: fl_def e_def u_def)
  have "fl x - x = (of_int (rne (x / u)) - x / u) * u"
    using upos by (simp add: flx field_simps)
  then have "\<bar>fl x - x\<bar> = \<bar>of_int (rne (x / u)) - x / u\<bar> * u"
    using upos by (simp add: abs_mult)
  also have "\<dots> \<le> 1 / 2 * u"
    using rne_error [of "x / u"] upos by (intro mult_right_mono) simp_all
  also have "u = 2 powi e / 2 ^ 52"
    by (simp add: u_def power_int_diff)
  also have "1 / 2 * (2 powi e / 2 ^ 52) = (2::real) powi e / 2 ^ 53"
    by simp
  also have "\<dots> \<le> x / 2 ^ 53"
    using pow2_floor_log_le [OF pos] by (simp add: e_def divide_right_mono)
  finally show ?thesis .
qed

lemma fl_hundredth: "fl (1 / 100) = 5764607523034235 / 2 ^ 59"
  by (subst fl_eval [where k = "- 7"]) (simp_all add: rne_def power_int_minus)


lemma grid_last_p0: "fl (500 * fl (1 / 100)) = 5"
  by (subst fl_eval [where k = 2]) (simp_all add: fl_hundredth rne_def)

lemma fl_3_2: "fl (16 / 5) = 7205759403792794 / 2 ^ 51"
  by (subst fl_eval [where k = 1]) (simp_all add: rne_def power_int_minus)

lemma grid_last: "fl (320 * fl (1 / 100)) = fl (16 / 5)"
  by (subst fl_eval [where k = 1]) (simp_all add: fl_hundredth fl_3_2 rne_def power_int_minus)

lemma grid_57: "fl (57 * fl (1 / 100)) = 5134103575202366 / 2 ^ 53"
  by (subst fl_eval [where k = "- 1"]) (simp_all add: fl_hundredth rne_def power_int_minus)

lemma fl_57: "fl (57 / 100) = 5134103575202365 / 2 ^ 53"
  by (subst fl_eval [where k = "- 1"]) (simp_all add: rne_def power_int_minus)

lemma grid_error: "\<bar>fl (real i * fl (1 / 100)) - real i / 100\<bar> \<le> real i / 100 / 2 ^ 51"
proof -
  define c where "c = fl (1 / 100)"
  have c: "\<bar>c - 1 / 100\<bar> \<le> 1 / 100 / 2 ^ 53"
    unfolding c_def by (rule fl_error) simp
  have cnn: "0 \<le> c"
    unfolding c_def by (rule fl_nonneg) simp
  have cub: "c \<le> 1 / 100 + 1 / 100 / 2 ^ 53"
    using c by linarith
  have 1: "\<bar>fl (real i * c) - real i * c\<bar> \<le> real i * c / 2 ^ 53"
    by (rule fl_error) (simp add: cnn)
  have "real i * c \<le> real i * (1 / 100 + 1 / 100 / 2 ^ 53)"
    by (intro mult_left_mono cub) simp
  then have 2: "real i * c / 2 ^ 53 \<le> real i * (1 / 100 + 1 / 100 / 2 ^ 53) / 2 ^ 53"
    by (rule divide_right_mono) simp
  have "real i * c - real i / 100 = real i * (c - 1 / 100)"
    by (simp add: right_diff_distrib)
  then have "\<bar>real i * c - real i / 100\<bar> = real i * \<bar>c - 1 / 100\<bar>"
    by (simp add: abs_mult)
  also have "\<dots> \<le> real i * (1 / 100 / 2 ^ 53)"
    by (intro mult_left_mono c) simp
  finally have 3: "\<bar>real i * c - real i / 100\<bar> \<le> real i * (1 / 100 / 2 ^ 53)" .
  have "\<bar>fl (real i * c) - real i / 100\<bar> \<le>
        \<bar>fl (real i * c) - real i * c\<bar> + \<bar>real i * c - real i / 100\<bar>"
    by simp
  also have "\<dots> \<le> real i * (1 / 100 + 1 / 100 / 2 ^ 53) / 2 ^ 53 + real i * (1 / 100 / 2 ^ 53)"
    using 1 2 3 by linarith
  also have "\<dots> \<le> real i / 100 / 2 ^ 51"
    by (simp add: field_simps)
  finally show ?thesis
    by (simp add: c_def)
qed

section \<open>Properties of the clamp\<close>

lemma clampResponse_Fin: "clampResponse (Fin y) = Fin (max 0 (min 120 y))"
  by (simp add: clampResponse_def max_def min_def)

lemma clampResponse_special:
  "clampResponse PInf = Fin 120" "clampResponse NInf = Fin 0" "clampResponse NaN = NaN"
  by (simp_all add: clampResponse_def)

lemma clampResponse_idem: "clampResponse (clampResponse v) = clampResponse v"
  by (cases v) (simp_all add: clampResponse_Fin clampResponse_special)

lemma clampResponse_in_range: "v \<noteq> NaN \<Longrightarrow> in_plot_range (clampResponse v)"
  by (cases v) (simp_all add: clampResponse_Fin clampResponse_special)

lemma clampResponse_finite: "finite_num v \<Longrightarrow> in_plot_range (clampResponse v)"
  by (cases v) (simp_all add: clampResponse_Fin)

text \<open>
  C4. For every real \<open>y\<close> the clamped response lies in the closed interval from 0 to
  120, and clamping twice is the same as clamping once.
\<close>

theorem clampResponse_range_idempotent:
  "in_plot_range (clampResponse (Fin y)) \<and>
   clampResponse (clampResponse (Fin y)) = clampResponse (Fin y)"
  by (simp add: clampResponse_Fin)

section \<open>Properties of the residual sum of squares\<close>

lemma js_sum_snoc: "js_sum (ts @ [t]) = js_add (js_sum ts) t"
  by (induction ts) (simp_all add: js_add_zero js_add_assoc)

lemma reduce_from_snoc:
  "reduce_from f (ys @ [y]) i acc = f (reduce_from f ys i acc) y (i + length ys)"
  by (induction ys arbitrary: i acc) simp_all

lemma rss_Nil: "rss [] pred = Fin 0"
  by (simp add: rss_def reduce_def)

lemma rss_snoc:
  "rss (obs @ [y]) pred =
   js_add (rss obs pred) (js_pow (js_sub y (nullish (at_index pred (length obs)) (Fin 0))) (Fin 2))"
  by (simp add: rss_def reduce_def reduce_from_snoc)

lemma nullish_at_index: "nullish (at_index pred i) d = (if i < length pred then pred ! i else d)"
  by (simp add: at_index_def)

lemma at_index_take: "i < n \<Longrightarrow> at_index (take n pred) i = at_index pred i"
  by (simp add: at_index_def)

lemma rss_eq_spec: "rss obs pred = rss_spec obs pred"
proof (induction obs rule: rev_induct)
  case Nil
  show ?case by (simp add: rss_Nil rss_spec_def)
next
  case (snoc y ys)
  have eq: "map (\<lambda>i. js_pow (js_sub ((ys @ [y]) ! i) (if i < length pred then pred ! i else Fin 0)) (Fin 2))
          [0..<length ys] =
        map (\<lambda>i. js_pow (js_sub (ys ! i) (if i < length pred then pred ! i else Fin 0)) (Fin 2))
          [0..<length ys]"
    by (rule map_cong) (simp_all add: nth_append del: js_pow.simps)
  have "rss_spec (ys @ [y]) pred =
        js_add (rss_spec ys pred)
          (js_pow (js_sub y (nullish (at_index pred (length ys)) (Fin 0))) (Fin 2))"
    by (simp add: rss_spec_def js_sum_snoc nullish_at_index eq del: js_pow.simps)
  then show ?case
    by (simp add: rss_snoc snoc.IH)
qed

lemma rss_real:
  "rss (map Fin obs) (map Fin pred) =
   Fin (\<Sum>i<length obs. (obs ! i - (if i < length pred then pred ! i else 0))\<^sup>2)"
proof (induction obs rule: rev_induct)
  case Nil
  show ?case by (simp add: rss_Nil)
next
  case (snoc y ys)
  show ?case
    by (simp add: rss_snoc snoc.IH nullish_at_index js_sub_Fin nth_append)
qed

lemma rss_cong:
  assumes "\<And>i. i < length obs \<Longrightarrow>
             nullish (at_index p1 i) (Fin 0) = nullish (at_index p2 i) (Fin 0)"
  shows "rss obs p1 = rss obs p2"
  using assms
proof (induction obs rule: rev_induct)
  case Nil
  show ?case by (simp add: rss_Nil)
next
  case (snoc y ys)
  have "rss ys p1 = rss ys p2"
    by (rule snoc.IH) (simp add: snoc.prems)
  moreover have "nullish (at_index p1 (length ys)) (Fin 0) = nullish (at_index p2 (length ys)) (Fin 0)"
    by (rule snoc.prems) simp
  ultimately show ?case
    by (simp only: rss_snoc)
qed

lemma rss_take: "rss obs (take (length obs) pred) = rss obs pred"
  by (rule rss_cong) (simp add: at_index_take)

text \<open>
  C3. For all sequences of observations and predictions, \<open>rss\<close> returns the sum over
  the indices of the observations of the squared difference between observation and
  prediction, where a prediction missing because the predictions are shorter counts
  as 0. The function is total: it returns a number for every pair of sequences, and a
  finite one for finite observations and predictions. With the observations 3 and 4
  and the one prediction 1 the value is \<open>(3 - 1)\<^sup>2 + (4 - 0)\<^sup>2 = 20\<close>.
\<close>

theorem rss_is_sum_of_squares:
  "rss obs pred = rss_spec obs pred \<and>
   rss (map Fin robs) (map Fin rpred) =
     Fin (\<Sum>i<length robs. (robs ! i - (if i < length rpred then rpred ! i else 0))\<^sup>2) \<and>
   rss [Fin 3, Fin 4] [Fin 1] = Fin 20"
proof (intro conjI)
  show "rss obs pred = rss_spec obs pred"
    by (rule rss_eq_spec)
  show "rss (map Fin robs) (map Fin rpred) =
     Fin (\<Sum>i<length robs. (robs ! i - (if i < length rpred then rpred ! i else 0))\<^sup>2)"
    by (rule rss_real)
  show "rss [Fin 3, Fin 4] [Fin 1] = Fin 20"
    by (simp add: rss_def reduce_def at_index_def js_sub_Fin)
qed

text \<open>
  C10. The residual sum of squares depends on the predictions only through their
  first \<open>length obs\<close> entries: two prediction sequences with the same such prefix
  give the same value, predictions past the observations are ignored, and without
  observations the value is 0.
\<close>

theorem rss_depends_on_prefix:
  assumes "take (length obs) p1 = take (length obs) p2"
  shows "rss obs p1 = rss obs p2 \<and>
         rss obs (take (length obs) p1) = rss obs p1 \<and>
         rss [] p1 = Fin 0"
proof -
  have "rss obs p1 = rss obs (take (length obs) p1)"
    by (simp only: rss_take)
  also have "\<dots> = rss obs (take (length obs) p2)"
    by (simp only: assms)
  also have "\<dots> = rss obs p2"
    by (simp only: rss_take)
  finally show ?thesis
    by (simp add: rss_take rss_Nil)
qed

text \<open>
  An instance: two observations, and predictions that agree on the first two entries
  and differ in length.
\<close>

theorem rss_depends_on_prefix_witness:
  "take (length [Fin 1, Fin 2]) [Fin 1, Fin 0, Fin 7] = take (length [Fin 1, Fin 2]) [Fin 1, Fin 0] \<and>
   rss [Fin 1, Fin 2] [Fin 1, Fin 0, Fin 7] = rss [Fin 1, Fin 2] [Fin 1, Fin 0] \<and>
   rss [Fin 1, Fin 2] [Fin 1, Fin 0] = Fin 4"
proof -
  have h: "take (length [Fin 1, Fin 2]) [Fin 1, Fin 0, Fin 7] =
           take (length [Fin 1, Fin 2]) [Fin 1, Fin 0]"
    by simp
  show ?thesis
    using h rss_depends_on_prefix [OF h]
    by (simp add: rss_def reduce_def at_index_def js_sub_Fin)
qed

section \<open>Properties of the evaluators\<close>

lemma getprop_Some: "p k = Some v \<Longrightarrow> getprop p k = v"
  by (simp add: getprop_def)

lemma defaults_simps:
  "defaults Linear = [''a'' \<mapsto> Fin 100, ''b'' \<mapsto> Fin (- 30)]"
  "defaults LogLinear = [''a'' \<mapsto> Fin 100, ''b'' \<mapsto> Fin (- 60)]"
  "defaults Emax =
     [''E0'' \<mapsto> Fin 100, ''Emax'' \<mapsto> Fin 60, ''ED50'' \<mapsto> Fin (1 / 2), ''h'' \<mapsto> Fin 1]"
  by (simp_all add: defaults_def fromEntries_def)

lemma defaults_p0_simps:
  "defaults_p0 Linear = [''b'' \<mapsto> Fin (- 20)]"
  "defaults_p0 LogLinear = [''b'' \<mapsto> Fin (- 50)]"
  "defaults_p0 Emax = [''Emax'' \<mapsto> Fin 70, ''ED50'' \<mapsto> Fin (3 / 2), ''h'' \<mapsto> Fin (3 / 2)]"
  by (simp_all add: defaults_p0_def fromEntries_def)

text \<open>
  With a dose and an \<open>ED50\<close> that are not negative, the denominator of the Emax
  response is 0 exactly when both are 0 and the Hill exponent is positive.
\<close>

lemma Emax_den_zero_iff:
  assumes "0 \<le> x" "0 \<le> ed"
  shows "js_add (js_pow (Fin ed) (Fin hh)) (js_pow (Fin x) (Fin hh)) = Fin 0 \<longleftrightarrow>
         x = 0 \<and> ed = 0 \<and> 0 < hh"
  using assms by (auto simp: add_nonneg_eq_0_iff)

text \<open>
  On the domain of the sliders, a positive \<open>ED50\<close> and a positive Hill exponent, the
  Emax response is the real number of the formula.
\<close>

lemma Emax_fn_real:
  assumes "0 \<le> x" "0 < ed" "0 < hh"
    and "p ''E0'' = Some (Fin base)" "p ''Emax'' = Some (Fin em)"
    and "p ''ED50'' = Some (Fin ed)" "p ''h'' = Some (Fin hh)"
  shows "Emax_fn (Fin x) p = Fin (base - em * x powr hh / (ed powr hh + x powr hh))"
proof -
  have "0 < ed powr hh + x powr hh"
    using assms by (simp add: add_pos_nonneg)
  then show ?thesis
    using assms
    by (cases "x = 0") (simp_all add: Emax_fn_def Let_def getprop_Some js_sub_Fin)
qed

text \<open>
  C1. For every dose \<open>x \<ge> 0\<close> and real parameters with \<open>ED50 \<ge> 0\<close>, the Emax
  evaluator returns \<open>E0 - (Emax * x^h) / (ED50^h + x^h)\<close>, and returns \<open>E0\<close> when
  the denominator \<open>ED50^h + x^h\<close> is 0. In \<^verbatim>\<open>unnamed/part_000\<close> the baseline
  \<open>E0\<close> is the constant 100 and not a parameter.
\<close>

theorem Emax_fn_refines_spec:
  assumes "0 \<le> x" "0 \<le> ed"
    and "p ''E0'' = Some (Fin base)" "p ''Emax'' = Some (Fin em)"
    and "p ''ED50'' = Some (Fin ed)" "p ''h'' = Some (Fin hh)"
    and "q ''Emax'' = Some (Fin em)" "q ''ED50'' = Some (Fin ed)" "q ''h'' = Some (Fin hh)"
  shows "Emax_fn (Fin x) p = Emax_spec (Fin base) (Fin em) (Fin ed) (Fin hh) (Fin x) \<and>
         Emax_fn_p0 (Fin x) q = Emax_spec (Fin 100) (Fin em) (Fin ed) (Fin hh) (Fin x)"
proof -
  let ?den = "js_add (js_pow (Fin ed) (Fin hh)) (js_pow (Fin x) (Fin hh))"
  have "nonneg_or_inf ?den"
    by (intro nonneg_or_inf_add js_pow_nonneg_base assms)
  then have gt: "js_gt ?den (Fin 0) = (?den \<noteq> Fin 0)"
    by (rule nonneg_or_inf_gt)
  show ?thesis
    by (simp add: Emax_fn_def Emax_fn_p0_def Emax_spec_def Let_def gt getprop_Some assms js_sub_Fin
        del: js_pow.simps)
qed

text \<open>
  An instance: the scenario of the specification, \<open>E0 = 100\<close>, \<open>Emax = 60\<close>,
  \<open>ED50 = 0.5\<close>, \<open>h = 1\<close> at the dose 0.5, where the response is 70.
\<close>

theorem Emax_fn_refines_spec_witness:
  "(0::real) \<le> 1 / 2 \<and>
   defaults Emax ''E0'' = Some (Fin 100) \<and> defaults Emax ''Emax'' = Some (Fin 60) \<and>
   defaults Emax ''ED50'' = Some (Fin (1 / 2)) \<and> defaults Emax ''h'' = Some (Fin 1) \<and>
   Emax_fn (Fin (1 / 2)) (defaults Emax) =
     Emax_spec (Fin 100) (Fin 60) (Fin (1 / 2)) (Fin 1) (Fin (1 / 2)) \<and>
   Emax_fn (Fin (1 / 2)) (defaults Emax) = Fin 70 \<and>
   Emax_fn_p0 (Fin (1 / 2)) [''Emax'' \<mapsto> Fin 60, ''ED50'' \<mapsto> Fin (1 / 2), ''h'' \<mapsto> Fin 1] =
     Emax_spec (Fin 100) (Fin 60) (Fin (1 / 2)) (Fin 1) (Fin (1 / 2))"
  using Emax_fn_refines_spec [where x = "1 / 2" and ed = "1 / 2" and base = 100 and em = 60
      and hh = 1 and p = "defaults Emax"
      and q = "[''Emax'' \<mapsto> Fin 60, ''ED50'' \<mapsto> Fin (1 / 2), ''h'' \<mapsto> Fin 1]"]
  by (simp add: defaults_simps Emax_spec_def js_sub_Fin)

lemma LogLinear_p0_regroup:
  "js_add (Fin 100) (js_mul (Fin b) (js_sub v (Fin (- 3)))) =
   js_add (js_sub (Fin 100) (js_mul (Fin b) (Fin (- 3)))) (js_mul (Fin b) v)"
  by (cases v) (simp_all add: js_sub_def algebra_simps)

text \<open>
  C8. The log-linear evaluator computes \<open>a + b * log10 (x + \<epsilon>)\<close> with the fixed
  positive offset \<open>\<epsilon> = 0.001\<close>, for every number \<open>x\<close>; for a dose \<open>r \<ge> 0\<close> this is
  the real number \<open>a + b * log 10 (r + 0.001)\<close>. In \<^verbatim>\<open>src/App.jsx\<close> the
  intercept \<open>a\<close> and the slope \<open>b\<close> are the parameters of the variant; in
  \<^verbatim>\<open>unnamed/part_000\<close> the slope is the only parameter and the intercept is
  \<open>100 - b * log10 \<epsilon>\<close>, as its equation string displays it.
\<close>

theorem LogLinear_fn_formula:
  assumes "p ''a'' = Some (Fin a)" "p ''b'' = Some (Fin b)" "q ''b'' = Some (Fin b)" "0 \<le> r"
  shows "LOG_OFFSET = Fin (1 / 1000) \<and>
         LogLinear_fn x p = LogLinear_spec LOG_OFFSET (Fin a) (Fin b) x \<and>
         LogLinear_fn (Fin r) p = Fin (a + b * log 10 (r + 1 / 1000)) \<and>
         LogLinear_fn_p0 x q =
           LogLinear_spec LOG_OFFSET
             (js_sub (Fin 100) (js_mul (Fin b) (js_log10 LOG_OFFSET))) (Fin b) x \<and>
         LogLinear_fn_p0 (Fin r) q = Fin ((100 + 3 * b) + b * log 10 (r + 1 / 1000))"
proof -
  have general: "LogLinear_fn x p = LogLinear_spec LOG_OFFSET (Fin a) (Fin b) x"
    "LogLinear_fn_p0 x q =
       LogLinear_spec LOG_OFFSET
         (js_sub (Fin 100) (js_mul (Fin b) (js_log10 LOG_OFFSET))) (Fin b) x"
    using assms
    by (simp_all add: LogLinear_fn_def LogLinear_spec_def LogLinear_fn_p0_def getprop_Some
        js_log10_LOG_OFFSET LogLinear_p0_regroup)
  have dose: "LogLinear_fn (Fin r) p = Fin (a + b * log 10 (r + 1 / 1000))"
    "LogLinear_fn_p0 (Fin r) q = Fin ((100 + 3 * b) + b * log 10 (r + 1 / 1000))"
    using assms
    by (simp_all add: LogLinear_fn_def LogLinear_fn_p0_def getprop_Some LOG_OFFSET_def
        log10_offset js_sub_Fin algebra_simps)
  show ?thesis
    by (simp only: general dose) (simp add: LOG_OFFSET_def)
qed

text \<open>An instance: the default parameters of \<^verbatim>\<open>src/App.jsx\<close> at the dose 0.999.\<close>

theorem LogLinear_fn_formula_witness:
  "defaults LogLinear ''a'' = Some (Fin 100) \<and> defaults LogLinear ''b'' = Some (Fin (- 60)) \<and>
   [''b'' \<mapsto> Fin (- 60)] ''b'' = Some (Fin (- 60)) \<and> (0::real) \<le> 999 / 1000 \<and>
   LogLinear_fn (Fin (999 / 1000)) (defaults LogLinear) = Fin 100 \<and>
   LogLinear_fn_p0 (Fin (999 / 1000)) [''b'' \<mapsto> Fin (- 60)] = Fin (- 80)"
  using LogLinear_fn_formula [where a = 100 and b = "- 60" and r = "999 / 1000"
      and x = "Fin (999 / 1000)" and p = "defaults LogLinear" and q = "[''b'' \<mapsto> Fin (- 60)]"]
  by (simp add: defaults_simps LogLinear_spec_def LOG_OFFSET_def log10_offset js_sub_Fin)

text \<open>
  At the dose 0 the log-linear evaluator of \<^verbatim>\<open>src/App.jsx\<close> returns
  \<open>a + b * log10 0.001 = a - 3 * b\<close>, which is the intercept only for the slope 0.
\<close>

lemma LogLinear_fn_at_zero:
  assumes "p ''a'' = Some (Fin a)" "p ''b'' = Some (Fin b)"
  shows "LogLinear_fn (Fin 0) p = Fin (a - 3 * b)"
  using assms by (simp add: LogLinear_fn_def getprop_Some LOG_OFFSET_def log10_offset)

text \<open>
  C9, as amended. At the dose 0 with the default parameters the linear evaluator
  returns the intercept \<open>a = 100\<close> and the Emax evaluator returns \<open>E0 = 100\<close>. The
  log-linear evaluator of \<^verbatim>\<open>src/App.jsx\<close> returns \<open>a - 3 * b\<close>, which is 280 for
  the defaults \<open>a = 100\<close> and \<open>b = -60\<close>. In \<^verbatim>\<open>unnamed/part_000\<close>, where the
  baseline is the constant 100 and the log-linear evaluator subtracts \<open>log10 \<epsilon>\<close>,
  all three evaluators return 100.
\<close>

theorem baseline_at_zero_dose:
  "getprop (defaults Linear) ''a'' = Fin 100 \<and>
   fn Linear (Fin 0) (defaults Linear) = Fin 100 \<and>
   getprop (defaults Emax) ''E0'' = Fin 100 \<and>
   fn Emax (Fin 0) (defaults Emax) = Fin 100 \<and>
   getprop (defaults LogLinear) ''a'' = Fin 100 \<and>
   getprop (defaults LogLinear) ''b'' = Fin (- 60) \<and>
   fn LogLinear (Fin 0) (defaults LogLinear) = Fin 280 \<and>
   fn_p0 Linear (Fin 0) (defaults_p0 Linear) = Fin 100 \<and>
   fn_p0 LogLinear (Fin 0) (defaults_p0 LogLinear) = Fin 100 \<and>
   fn_p0 Emax (Fin 0) (defaults_p0 Emax) = Fin 100"
  by (simp add: defaults_simps defaults_p0_simps getprop_def Linear_fn_def LogLinear_fn_def
      Emax_fn_def Linear_fn_p0_def LogLinear_fn_p0_def Emax_fn_p0_def LOG_OFFSET_def log10_offset
      js_sub_Fin Let_def)

text \<open>
  The claim without the amendment fails for the log-linear evaluator of
  \<^verbatim>\<open>src/App.jsx\<close>: its value at the dose 0 is not the intercept, and the point of
  the curve there is the upper end 120 of the plot range.
\<close>

theorem baseline_at_zero_dose_counterexample:
  "fn LogLinear (Fin 0) (defaults LogLinear) \<noteq> getprop (defaults LogLinear) ''a'' \<and>
   clampResponse (fn LogLinear (Fin 0) (defaults LogLinear)) = Fin 120"
  by (simp add: defaults_simps getprop_def LogLinear_fn_def LOG_OFFSET_def log10_offset
      clampResponse_Fin)

section \<open>Properties of the parameter state\<close>

subsection \<open>One state object per model\<close>

lemma run_p0_Nil: "run_p0 [] s = s"
  by (simp add: run_p0_def)

lemma run_p0_Cons: "run_p0 (a # as) s = run_p0 as (act_p0 s a)"
  by (simp add: run_p0_def)

lemma run_p0_append: "run_p0 (as @ bs) s = run_p0 bs (run_p0 as s)"
  by (simp add: run_p0_def)

text \<open>No action changes the state object of a model that is not selected.\<close>

lemma act_p0_inactive:
  "v \<noteq> modelKey_p0 s \<Longrightarrow> stateByModel (act_p0 s a) v = stateByModel s v"
  by (cases a) (simp_all add: setModelKey_p0_def update_p0_def reset_p0_def)

lemma run_p0_away:
  "Select v \<notin> set as \<Longrightarrow> modelKey_p0 s \<noteq> v \<Longrightarrow>
   stateByModel (run_p0 as s) v = stateByModel s v \<and> modelKey_p0 (run_p0 as s) \<noteq> v"
proof (induction as arbitrary: s)
  case Nil
  then show ?case by (simp add: run_p0_Nil)
next
  case (Cons a as)
  from Cons.prems have key: "modelKey_p0 (act_p0 s a) \<noteq> v"
    by (cases a) (auto simp: setModelKey_p0_def update_p0_def reset_p0_def)
  from Cons.prems have "Select v \<notin> set as" by simp
  from Cons.IH [OF this key] Cons.prems(2) show ?case
    by (simp add: run_p0_Cons act_p0_inactive)
qed

text \<open>
  In \<^verbatim>\<open>unnamed/part_000\<close>, leaving the selected model \<open>v\<close> for another model, doing
  anything there and in any further models, and selecting \<open>v\<close> again gives back the
  parameters \<open>v\<close> had.
\<close>

lemma switch_back_p0:
  assumes "modelKey_p0 s = v" "w \<noteq> v" "Select v \<notin> set as"
  shows "params_of_p0 (run_p0 (Select w # as @ [Select v]) s) = params_of_p0 s \<and>
         modelKey_p0 (run_p0 (Select w # as @ [Select v]) s) = v"
proof -
  let ?s1 = "act_p0 s (Select w)"
  have k1: "modelKey_p0 ?s1 \<noteq> v"
    using assms by (simp add: setModelKey_p0_def)
  have st1: "stateByModel ?s1 v = stateByModel s v"
    by (simp add: setModelKey_p0_def)
  from run_p0_away [OF assms(3) k1] st1
  have "stateByModel (run_p0 as ?s1) v = stateByModel s v"
    by simp
  then show ?thesis
    using assms(1)
    by (simp add: run_p0_Cons run_p0_append run_p0_Nil params_of_p0_def setModelKey_p0_def)
qed

text \<open>
  In \<^verbatim>\<open>unnamed/part_000\<close>, \<open>update\<close> stores the value as it is, under the key \<open>k\<close>
  of the selected model, and changes nothing else.
\<close>

lemma update_p0_frame:
  "stateByModel (update_p0 k x s) (modelKey_p0 s) k = Some x \<and>
   (\<forall>k'. k' \<noteq> k \<longrightarrow>
      stateByModel (update_p0 k x s) (modelKey_p0 s) k' = stateByModel s (modelKey_p0 s) k') \<and>
   (\<forall>v. v \<noteq> modelKey_p0 s \<longrightarrow> stateByModel (update_p0 k x s) v = stateByModel s v) \<and>
   modelKey_p0 (update_p0 k x s) = modelKey_p0 s"
  by (simp add: update_p0_def)

subsection \<open>The states the controls reach\<close>

text \<open>
  In \<^verbatim>\<open>unnamed/part_000\<close> every model keeps all the parameters of its schema,
  each a finite number within its bounds, in the initial state and after every action
  of the controls.
\<close>

lemma defaults_p0_in_bounds: "params_in_bounds (model_params_p0 v) (defaults_p0 v)"
  by (cases v) (simp_all add: params_in_bounds_def defaults_p0_simps in_bounds_def)

lemma state_in_bounds_p0_iff:
  "state_in_bounds_p0 s \<longleftrightarrow> (\<forall>v. params_in_bounds (model_params_p0 v) (stateByModel s v))"
proof
  assume "state_in_bounds_p0 s"
  then have "params_in_bounds (model_params_p0 v) (stateByModel s v)" for v
    by (cases v) (simp_all add: state_in_bounds_p0_def)
  then show "\<forall>v. params_in_bounds (model_params_p0 v) (stateByModel s v)"
    by simp
next
  assume "\<forall>v. params_in_bounds (model_params_p0 v) (stateByModel s v)"
  then show "state_in_bounds_p0 s"
    unfolding state_in_bounds_p0_def by blast
qed

lemma init_in_bounds_p0: "state_in_bounds_p0 app_init_p0"
  by (simp add: state_in_bounds_p0_iff app_init_p0_def defaults_p0_in_bounds)

lemma slide_in_bounds:
  assumes "params_in_bounds (model_params_p0 v) p"
    and "map_of (model_params_p0 v) k = Some sp" "in_bounds sp val"
  shows "params_in_bounds (model_params_p0 v) (p(k \<mapsto> val))"
proof (cases v)
  case Linear
  with assms show ?thesis
    by (simp add: params_in_bounds_def split: if_splits)
next
  case LogLinear
  with assms show ?thesis
    by (simp add: params_in_bounds_def split: if_splits)
next
  case Emax
  with assms show ?thesis
    by (simp add: params_in_bounds_def split: if_splits)
qed

lemma act_p0_in_bounds:
  assumes "state_in_bounds_p0 s" "control_action_p0 s a"
  shows "state_in_bounds_p0 (act_p0 s a)"
proof (cases a)
  case (Select k)
  with assms show ?thesis
    by (simp add: state_in_bounds_p0_def setModelKey_p0_def)
next
  case (Slide k val)
  with assms(2) obtain sp where sp: "map_of (model_params_p0 (modelKey_p0 s)) k = Some sp"
    "in_bounds sp val"
    by (auto split: option.splits)
  from assms(1) have all: "\<And>v. params_in_bounds (model_params_p0 v) (stateByModel s v)"
    by (simp add: state_in_bounds_p0_iff)
  have "params_in_bounds (model_params_p0 v) (stateByModel (update_p0 k val s) v)" for v
  proof (cases "v = modelKey_p0 s")
    case True
    then show ?thesis
      using slide_in_bounds [OF all sp] by (simp add: update_p0_def)
  next
    case False
    then show ?thesis
      by (simp add: update_p0_def all)
  qed
  then show ?thesis
    by (simp add: state_in_bounds_p0_iff Slide)
next
  case Reset
  from assms(1) have all: "\<And>v. params_in_bounds (model_params_p0 v) (stateByModel s v)"
    by (simp add: state_in_bounds_p0_iff)
  have "params_in_bounds (model_params_p0 v) (stateByModel (reset_p0 s) v)" for v
    by (cases "v = modelKey_p0 s") (simp_all add: reset_p0_def all defaults_p0_in_bounds)
  then show ?thesis
    by (simp add: state_in_bounds_p0_iff Reset)
qed

lemma run_p0_in_bounds:
  "state_in_bounds_p0 s \<Longrightarrow> control_run_p0 s as \<Longrightarrow> state_in_bounds_p0 (run_p0 as s)"
  by (induction as arbitrary: s) (simp_all add: run_p0_def act_p0_in_bounds)

subsection \<open>One state object for all models\<close>

text \<open>
  In \<^verbatim>\<open>src/App.jsx\<close>, \<open>update\<close> stores the value as it is under the key \<open>k\<close> of
  the one state object and leaves its other keys alone; selecting a model does not
  touch the object.
\<close>

lemma update_frame:
  "state (update k x s) k = Some x \<and>
   (\<forall>k'. k' \<noteq> k \<longrightarrow> state (update k x s) k' = state s k') \<and>
   modelKey (update k x s) = modelKey s"
  by (simp add: update_def)

lemma setModelKey_state: "params_of (setModelKey k s) = params_of s"
  by (simp add: setModelKey_def params_of_def)

text \<open>
  C2. The claim is that every model keeps its own parameters, so that leaving a
  model and selecting it again gives back the values edited before.
  \<^verbatim>\<open>unnamed/part_000\<close> does so (\<open>switch_back_p0\<close>). \<^verbatim>\<open>src/App.jsx\<close> does not:
  from the initial state, select Linear and slide \<open>b\<close> to -10; then select
  Log-linear, slide \<open>b\<close> to 5 and select Linear again. Linear now reads
  \<open>b = 5\<close>.
\<close>

theorem shared_state_switch_back:
  "modelKey (run [Select Linear, Slide ''b'' (Fin (- 10))] app_init) = Linear \<and>
   params_of (run [Select Linear, Slide ''b'' (Fin (- 10))] app_init) ''b'' = Some (Fin (- 10)) \<and>
   modelKey (run [Select LogLinear, Slide ''b'' (Fin 5), Select Linear]
      (run [Select Linear, Slide ''b'' (Fin (- 10))] app_init)) = Linear \<and>
   params_of (run [Select LogLinear, Slide ''b'' (Fin 5), Select Linear]
      (run [Select Linear, Slide ''b'' (Fin (- 10))] app_init)) ''b'' = Some (Fin 5)"
  by (simp add: run_def app_init_def setModelKey_def update_def params_of_def)

text \<open>
  The same object is also what Reset overwrites: after selecting Linear, pressing
  Reset and selecting Emax again, the parameters are the defaults of Linear and
  \<open>E0\<close> is missing.
\<close>

lemma shared_state_reset:
  "params_of (run [Select Linear, Reset, Select Emax] app_init) = defaults Linear \<and>
   params_of (run [Select Linear, Reset, Select Emax] app_init) ''E0'' = None \<and>
   params_of app_init ''E0'' = Some (Fin 100)"
  by (simp add: run_def app_init_def setModelKey_def reset_def params_of_def defaults_simps)

text \<open>
  C7. The claim is that an update stores the value unclamped under one key of one
  model and leaves every other key and every other model's parameters as they were.
  \<^verbatim>\<open>unnamed/part_000\<close> does so (\<open>update_p0_frame\<close>), and in \<^verbatim>\<open>src/App.jsx\<close>
  the value is stored unclamped and the other keys stay (\<open>update_frame\<close>). But in
  \<^verbatim>\<open>src/App.jsx\<close> the parameters of the other models change: with Linear
  selected, Log-linear would read no \<open>b\<close> before \<open>update('b', -10)\<close> and reads
  \<open>b = -10\<close> after it.
\<close>

theorem shared_state_update_leaks:
  "params_of (setModelKey LogLinear (setModelKey Linear app_init)) ''b'' = None \<and>
   params_of (setModelKey LogLinear (update ''b'' (Fin (- 10)) (setModelKey Linear app_init))) ''b''
     = Some (Fin (- 10))"
  by (simp add: app_init_def setModelKey_def update_def params_of_def defaults_simps)

section \<open>Properties of the sampled curve and the predictions\<close>

lemma xs_eq: "xs = map (\<lambda>i. Fin (fl (real i * fl (1 / 100)))) [0..<321]"
  by (simp add: xs_def array_from_def)

lemma xs_p0_eq: "xs_p0 = map (\<lambda>i. Fin (fl (real i * fl (1 / 100)))) [0..<501]"
  by (simp add: xs_p0_def array_from_def)

lemma fl_zero: "fl 0 = 0"
  by (simp add: fl_def)

lemma grid_nonneg: "0 \<le> fl (real i * fl (1 / 100))"
  by (intro fl_nonneg mult_nonneg_nonneg) simp_all

text \<open>
  C6, as amended. The doses of the curve are the double products \<open>i * 0.01\<close> for
  \<open>i\<close> from 0: 501 samples in \<^verbatim>\<open>unnamed/part_000\<close>, the first exactly 0 and the
  last exactly 5, and 321 samples in \<^verbatim>\<open>src/App.jsx\<close>, the first exactly 0 and the
  last the double 3.2. Every sample is within the relative error \<open>2^-51\<close> of
  \<open>i / 100\<close>.
\<close>

theorem curve_sampling_grid:
  assumes "i < 501" "j < 321"
  shows "length xs_p0 = 501 \<and> hd xs_p0 = Fin 0 \<and> last xs_p0 = Fin 5 \<and>
         map fst (curve_p0 k p) = xs_p0 \<and>
         xs_p0 ! i = Fin (fl (real i * fl (1 / 100))) \<and>
         \<bar>fl (real i * fl (1 / 100)) - real i / 100\<bar> \<le> real i / 100 / 2 ^ 51 \<and>
         length xs = 321 \<and> hd xs = Fin 0 \<and> last xs = Fin (fl (16 / 5)) \<and>
         map fst (curve k p) = xs \<and>
         xs ! j = Fin (fl (real j * fl (1 / 100))) \<and>
         \<bar>fl (real j * fl (1 / 100)) - real j / 100\<bar> \<le> real j / 100 / 2 ^ 51"
proof -
  have ends_p0: "length xs_p0 = 501" "hd xs_p0 = Fin 0" "last xs_p0 = Fin 5"
    using grid_last_p0 by (simp_all add: xs_p0_eq hd_map last_map fl_zero)
  have ends: "length xs = 321" "hd xs = Fin 0" "last xs = Fin (fl (16 / 5))"
    using grid_last by (simp_all add: xs_eq hd_map last_map fl_zero)
  have fsts: "map fst (curve_p0 k p) = xs_p0" "map fst (curve k p) = xs"
    by (simp_all add: curve_def curve_p0_def comp_def)
  have nths: "xs_p0 ! i = Fin (fl (real i * fl (1 / 100)))"
    "xs ! j = Fin (fl (real j * fl (1 / 100)))"
    using assms by (simp_all add: xs_eq xs_p0_eq)
  show ?thesis
    by (simp only: ends_p0 ends fsts nths grid_error)
qed

text \<open>An instance: the sample 57, which is the double \<open>0.5700000000000001\<close>.\<close>

theorem curve_sampling_grid_witness:
  "(57::nat) < 501 \<and> (57::nat) < 321 \<and>
   xs_p0 ! 57 = Fin (5134103575202366 / 2 ^ 53) \<and>
   xs ! 57 = Fin (5134103575202366 / 2 ^ 53) \<and>
   \<bar>5134103575202366 / 2 ^ 53 - 57 / 100\<bar> \<le> (57 / 100 / 2 ^ 51 :: real)"
  using curve_sampling_grid [where i = 57 and j = 57] grid_57
  by simp

text \<open>
  The claim without the amendment says that the doses are exactly 0, 0.01, 0.02 and
  so on. The sample 57 is neither the real number 0.57 nor the double nearest to it,
  \<open>5134103575202365 / 2^53\<close>, which is what the literal \<open>0.57\<close> denotes.
\<close>

theorem curve_sampling_grid_counterexample:
  "xs_p0 ! 57 \<noteq> Fin (57 / 100) \<and> xs_p0 ! 57 \<noteq> Fin (fl (57 / 100)) \<and>
   xs ! 57 \<noteq> Fin (57 / 100) \<and> xs ! 57 \<noteq> Fin (fl (57 / 100))"
  using grid_57 fl_57 by (simp add: xs_eq xs_p0_eq)

subsection \<open>Where the evaluators are finite\<close>

lemma Linear_fn_finite:
  "p ''a'' = Some (Fin a) \<Longrightarrow> p ''b'' = Some (Fin b) \<Longrightarrow> finite_num (Linear_fn (Fin x) p)"
  by (simp add: Linear_fn_def getprop_Some)

lemma Linear_fn_p0_finite:
  "p ''b'' = Some (Fin b) \<Longrightarrow> finite_num (Linear_fn_p0 (Fin x) p)"
  by (simp add: Linear_fn_p0_def getprop_Some)

lemma LogLinear_fn_finite:
  "0 \<le> x \<Longrightarrow> p ''a'' = Some (Fin a) \<Longrightarrow> p ''b'' = Some (Fin b) \<Longrightarrow>
   finite_num (LogLinear_fn (Fin x) p)"
  by (simp add: LogLinear_fn_def getprop_Some LOG_OFFSET_def)

lemma LogLinear_fn_p0_finite:
  "0 \<le> x \<Longrightarrow> p ''b'' = Some (Fin b) \<Longrightarrow> finite_num (LogLinear_fn_p0 (Fin x) p)"
  by (simp add: LogLinear_fn_p0_def getprop_Some LOG_OFFSET_def js_sub_Fin)

lemma inh_finite:
  assumes "0 \<le> x" "0 \<le> hh"
  shows "finite_num
    (if js_gt (js_add (js_pow (Fin ed) (Fin hh)) (js_pow (Fin x) (Fin hh))) (Fin 0)
     then js_div (js_mul (Fin em) (js_pow (Fin x) (Fin hh)))
            (js_add (js_pow (Fin ed) (Fin hh)) (js_pow (Fin x) (Fin hh)))
     else Fin 0)"
  using assms
  by (cases "hh = 0"; cases "x = 0"; cases "ed = 0"; cases "ed < 0"; cases "hh \<in> \<int>") simp_all

lemma Emax_fn_finite:
  assumes "0 \<le> x" "0 \<le> hh"
    and "p ''E0'' = Some (Fin base)" "p ''Emax'' = Some (Fin em)"
    and "p ''ED50'' = Some (Fin ed)" "p ''h'' = Some (Fin hh)"
  shows "finite_num (Emax_fn (Fin x) p)"
proof -
  have gp: "getprop p ''E0'' = Fin base" "getprop p ''Emax'' = Fin em"
    "getprop p ''ED50'' = Fin ed" "getprop p ''h'' = Fin hh"
    using assms by (simp_all add: getprop_def)
  show ?thesis
    unfolding Emax_fn_def Let_def gp
    by (intro finite_sub inh_finite assms)
qed

lemma Emax_fn_p0_finite:
  assumes "0 \<le> x" "0 \<le> hh"
    and "p ''Emax'' = Some (Fin em)"
    and "p ''ED50'' = Some (Fin ed)" "p ''h'' = Some (Fin hh)"
  shows "finite_num (Emax_fn_p0 (Fin x) p)"
proof -
  have gp: "getprop p ''Emax'' = Fin em" "getprop p ''ED50'' = Fin ed" "getprop p ''h'' = Fin hh"
    using assms by (simp_all add: getprop_def)
  show ?thesis
    unfolding Emax_fn_p0_def Let_def gp
    by (intro finite_sub inh_finite assms)
qed

lemma in_bounds_cases:
  assumes "in_bounds sp v"
  obtains r where "v = Fin r" "\<not> js_gt (min_bound sp) (Fin r)" "\<not> js_gt (Fin r) (max_bound sp)"
  using assms by (cases v) (simp_all add: in_bounds_def)

text \<open>
  With the parameters of a model of \<^verbatim>\<open>unnamed/part_000\<close> within their bounds, its
  evaluator is finite at every dose that is not negative.
\<close>

lemma fn_p0_finite_in_bounds:
  assumes "params_in_bounds (model_params_p0 v) p" "0 \<le> x"
  shows "finite_num (fn_p0 v (Fin x) p)"
proof (cases v)
  case Linear
  with assms(1) obtain sp v1 where "p ''b'' = Some v1" "in_bounds sp v1"
    by (auto simp: params_in_bounds_def split: option.splits)
  then obtain b where "p ''b'' = Some (Fin b)"
    by (auto elim: in_bounds_cases)
  then show ?thesis
    by (simp add: Linear Linear_fn_p0_finite)
next
  case LogLinear
  with assms(1) obtain sp v1 where "p ''b'' = Some v1" "in_bounds sp v1"
    by (auto simp: params_in_bounds_def split: option.splits)
  then obtain b where "p ''b'' = Some (Fin b)"
    by (auto elim: in_bounds_cases)
  then show ?thesis
    using assms(2) by (simp add: LogLinear LogLinear_fn_p0_finite)
next
  case Emax
  with assms(1) obtain v1 v2 v3 where
    v: "p ''Emax'' = Some v1" "p ''ED50'' = Some v2" "p ''h'' = Some v3"
    and fin: "finite_num v1" "finite_num v2"
    and h: "finite_num v3" "\<not> js_gt (Fin (1 / 5)) v3"
    by (auto simp: params_in_bounds_def in_bounds_def split: option.splits)
  from fin obtain em ed where e: "v1 = Fin em" "v2 = Fin ed"
    by (cases v1; cases v2) simp_all
  from h obtain hh where hh: "v3 = Fin hh" "1 / 5 \<le> hh"
    by (cases v3) simp_all
  then have h0: "0 \<le> hh" by simp
  have "finite_num (Emax_fn_p0 (Fin x) p)"
    using assms(2) h0 v unfolding e hh(1) by (rule Emax_fn_p0_finite)
  then show ?thesis
    by (simp add: Emax)
qed

subsection \<open>The curve is clamped and the predictions are not\<close>

text \<open>
  In both copies every point of the curve is \<open>clampResponse\<close> of the evaluator's
  raw value, in the plot range unless that value is \<open>NaN\<close>, and the predictions
  and the residual sum of squares use the raw values.
\<close>

lemma curve_points_clamped:
  assumes "i < length xs" "j < length xs_p0"
  shows "curve k p ! i = (xs ! i, clampResponse (fn k (xs ! i) p))"
    and "curve_p0 k q ! j = (xs_p0 ! j, clampResponse (fn_p0 k (xs_p0 ! j) q))"
    and "fn k (xs ! i) p \<noteq> NaN \<Longrightarrow> in_plot_range (snd (curve k p ! i))"
    and "fn_p0 k (xs_p0 ! j) q \<noteq> NaN \<Longrightarrow> in_plot_range (snd (curve_p0 k q ! j))"
  using assms by (simp_all add: curve_def curve_p0_def clampResponse_in_range)

lemma preds_raw:
  "preds k p = map (\<lambda>d. fn k (fst d) p) demoData"
  "rssVal k p = rss (map snd demoData) (map (\<lambda>d. fn k (fst d) p) demoData)"
  "preds_p0 k q = map (\<lambda>d. fn_p0 k (fst d) q) demoData_p0"
  "rssVal_p0 k q = rss (map snd demoData_p0) (map (\<lambda>d. fn_p0 k (fst d) q) demoData_p0)"
  by (simp_all add: preds_def preds_p0_def rssVal_def rssVal_p0_def)

text \<open>
  An instance with the steepest slope of the slider, \<open>b = -200\<close>: the raw value of
  the linear model at the dose 3 is -500; the prediction at the observed dose 3 is
  this value, and the last point of the curve of \<^verbatim>\<open>unnamed/part_000\<close>, at the
  dose 5, is clamped to 0.
\<close>

lemma preds_not_clamped:
  "preds Linear [''a'' \<mapsto> Fin 100, ''b'' \<mapsto> Fin (- 200)] ! 3 = Fin (- 500)"
  "preds_p0 Linear [''b'' \<mapsto> Fin (- 200)] ! 3 = Fin (- 500)"
  "snd (last (curve_p0 Linear [''b'' \<mapsto> Fin (- 200)])) = Fin 0"
  using grid_last_p0
  by (simp_all add: preds_def preds_p0_def demoData_def demoData_p0_def DOSES_def Linear_fn_def
      Linear_fn_p0_def getprop_def curve_p0_def xs_p0_eq last_map clampResponse_Fin)

text \<open>
  Where the evaluator is finite on the doses that are not negative, every point of
  the curve is in the plot range.
\<close>

lemma curve_in_range:
  assumes "\<And>x. 0 \<le> x \<Longrightarrow> finite_num (fn k (Fin x) p)" "pt \<in> set (curve k p)"
  shows "in_plot_range (snd pt)"
  using assms(2)
  by (auto simp: curve_def xs_eq intro!: clampResponse_finite assms(1) grid_nonneg)

lemma curve_p0_in_range:
  assumes "\<And>x. 0 \<le> x \<Longrightarrow> finite_num (fn_p0 k (Fin x) p)" "pt \<in> set (curve_p0 k p)"
  shows "in_plot_range (snd pt)"
  using assms(2)
  by (auto simp: curve_p0_def xs_p0_eq intro!: clampResponse_finite assms(1) grid_nonneg)

text \<open>
  In \<^verbatim>\<open>unnamed/part_000\<close>, after every run of the controls from the initial state,
  every point of the curve of the selected model is in the plot range.
\<close>

lemma curve_p0_reachable_in_range:
  assumes "control_run_p0 app_init_p0 as" "s = run_p0 as app_init_p0"
    and "pt \<in> set (curve_p0 (modelKey_p0 s) (params_of_p0 s))"
  shows "in_plot_range (snd pt)"
proof -
  have "state_in_bounds_p0 s"
    unfolding assms(2) by (rule run_p0_in_bounds [OF init_in_bounds_p0 assms(1)])
  then have "params_in_bounds (model_params_p0 (modelKey_p0 s)) (params_of_p0 s)"
    by (simp add: state_in_bounds_p0_iff params_of_p0_def)
  then have "finite_num (fn_p0 (modelKey_p0 s) (Fin x) (params_of_p0 s))" if "0 \<le> x" for x
    using that by (rule fn_p0_finite_in_bounds)
  then show ?thesis
    using assms(3) by (rule curve_p0_in_range)
qed

lemma Linear_fn_undefined: "p ''a'' = None \<Longrightarrow> Linear_fn x p = NaN"
  by (simp add: Linear_fn_def getprop_def)

text \<open>
  C5. The claim is that every response of the plotted curve has passed the clamp
  and so lies between 0 and 120, while the predictions for the residual sum of
  squares are the raw values. \<^verbatim>\<open>unnamed/part_000\<close> does so in every state the
  controls reach (\<open>curve_p0_reachable_in_range\<close>, \<open>preds_raw\<close>). In
  \<^verbatim>\<open>src/App.jsx\<close> the curve is clamped and the predictions are not, but the
  responses are not all in the range: after the first selection of another model,
  Linear, the one state object still holds the parameters of Emax, \<open>p.a\<close> and
  \<open>p.b\<close> are \<open>undefined\<close>, every raw value is \<open>NaN\<close>, the clamp passes it on, and
  all 321 points of the curve are \<open>NaN\<close>.
\<close>

theorem shared_state_curve_NaN:
  "modelKey (run [Select Linear] app_init) = Linear \<and>
   params_of (run [Select Linear] app_init) = defaults Emax \<and>
   map snd (curve Linear (params_of (run [Select Linear] app_init))) = replicate 321 NaN \<and>
   \<not> in_plot_range (snd (curve Linear (params_of (run [Select Linear] app_init)) ! 0)) \<and>
   preds Linear (params_of (run [Select Linear] app_init)) = [NaN, NaN, NaN, NaN]"
proof -
  have p: "params_of (run [Select Linear] app_init) = defaults Emax"
    "modelKey (run [Select Linear] app_init) = Linear"
    by (simp_all add: run_def setModelKey_def app_init_def params_of_def)
  have undef: "Linear_fn x (defaults Emax) = NaN" for x
    by (rule Linear_fn_undefined) (simp add: defaults_simps)
  have c: "map snd (curve Linear (defaults Emax)) = replicate 321 NaN"
    by (simp add: curve_def comp_def undef clampResponse_special
        map_replicate_const xs_eq)
  have "snd (curve Linear (defaults Emax) ! 0) = map snd (curve Linear (defaults Emax)) ! 0"
    by (simp add: curve_def xs_eq)
  then have c0: "snd (curve Linear (defaults Emax) ! 0) = NaN"
    by (simp only: c) simp
  have pr: "preds Linear (defaults Emax) = [NaN, NaN, NaN, NaN]"
    by (simp add: preds_def demoData_def DOSES_def undef)
  show ?thesis
    by (simp add: p c c0 pr)
qed

end
